theory Spec2Isabelle
  imports Complex_Main "HOL-Library.Sublist" "HOL-Library.Multiset"
begin

section \<open>Strings\<close>

text \<open>
  A Python \<open>str\<close> is a sequence of Unicode code points, a list of natural numbers
  here. The string literals of the source are ASCII; they are written as HOL strings, and
  \<open>str\<close> gives the code points of one. Category names and sentiment labels only ever
  are such literals and stay HOL strings; the texts that come from outside (the fields of
  a scraped article) are code point sequences.
\<close>

type_synonym pystr = "nat list"

definition str :: "string \<Rightarrow> pystr" where
  "str s = map of_char s"

definition is_ascii :: "pystr \<Rightarrow> bool" where
  "is_ascii s = list_all (\<lambda>c. c < 128) s"

text \<open>
  \<open>str.lower()\<close>. On a string of ASCII code points it maps the letters \<open>A\<close> to
  \<open>Z\<close> to \<open>a\<close> to \<open>z\<close> and leaves every other code point unchanged. On any
  other string the result is given by the case mapping of the Unicode database, which
  may depend on the context of a code point and may replace one code point by several;
  that mapping is not part of the source and is the parameter \<open>unicode_lower\<close>.
\<close>

definition ascii_lower_char :: "nat \<Rightarrow> nat" where
  "ascii_lower_char c = (if 65 \<le> c \<and> c \<le> 90 then c + 32 else c)"

definition str_lower :: "(pystr \<Rightarrow> pystr) \<Rightarrow> pystr \<Rightarrow> pystr" where
  "str_lower unicode_lower text =
     (if is_ascii text then map ascii_lower_char text else unicode_lower text)"

text \<open>
  Python's \<open>a in b\<close> on strings: \<open>a\<close> occurs in \<open>b\<close> as a contiguous run of
  code points (the empty string occurs in every string).
\<close>

fun starts_with :: "'a list \<Rightarrow> 'a list \<Rightarrow> bool" where
  "starts_with [] b = True"
| "starts_with (x # a) [] = False"
| "starts_with (x # a) (y # b) = (x = y \<and> starts_with a b)"

fun str_in :: "'a list \<Rightarrow> 'a list \<Rightarrow> bool" where
  "str_in a [] = (a = [])"
| "str_in a (y # b) = (starts_with a (y # b) \<or> str_in a b)"

section \<open>The keyword table\<close>

text \<open>
  \<open>SDG_KEYWORDS\<close> is a dict literal; a dict keeps insertion order, so it is an
  association list here, in the order of the source. The key \<open>"keywords"\<close> of an entry
  is the field \<open>keyword_list\<close> (the word itself is reserved in Isabelle).
\<close>

record sdg_data =
  keyword_list :: "string list"
  color :: string

definition SDG_KEYWORDS :: "(string \<times> sdg_data) list" where
  "SDG_KEYWORDS =
   [(''No Poverty (SDG1)'',
       \<lparr>keyword_list = [''poverty'', ''financial inclusion'', ''poverty reduction''],
        color = ''#e5243b''\<rparr>),
    (''Good Health and Well-being (SDG3)'',
       \<lparr>keyword_list = [''health'', ''wellbeing'', ''mental health'', ''healthcare''],
        color = ''#4c9f38''\<rparr>),
    (''Gender Equality (SDG5)'',
       \<lparr>keyword_list = [''gender equality'', ''women empowerment'', ''diversity'', ''inclusion''],
        color = ''#ff3a21''\<rparr>),
    (''Affordable and Clean Energy (SDG7)'',
       \<lparr>keyword_list = [''clean energy'', ''renewable'', ''solar'', ''wind'', ''energy efficiency''],
        color = ''#fcc30b''\<rparr>),
    (''Decent Work and Economic Growth (SDG8)'',
       \<lparr>keyword_list = [''economic growth'', ''jobs'', ''employment'', ''decent work''],
        color = ''#a21942''\<rparr>),
    (''Industry, Innovation and Infrastructure (SDG9)'',
       \<lparr>keyword_list = [''innovation'', ''infrastructure'', ''technology'', ''industry''],
        color = ''#fd6925''\<rparr>),
    (''Reduced Inequalities (SDG10)'',
       \<lparr>keyword_list = [''inequality'', ''equal opportunity'', ''inclusion'', ''fairness''],
        color = ''#dd1367''\<rparr>),
    (''Sustainable Cities and Communities (SDG11)'',
       \<lparr>keyword_list = [''sustainable cities'', ''urban'', ''communities'', ''housing''],
        color = ''#fd9d24''\<rparr>),
    (''Responsible Consumption and Production (SDG12)'',
       \<lparr>keyword_list = [''sustainable consumption'', ''waste'', ''recycling'', ''circular economy''],
        color = ''#bf8b2e''\<rparr>),
    (''Climate Action (SDG13)'',
       \<lparr>keyword_list = [''climate change'', ''carbon emissions'', ''climate action'', ''global warming''],
        color = ''#3f7e44''\<rparr>),
    (''Life Below Water (SDG14)'',
       \<lparr>keyword_list = [''marine'', ''oceans'', ''water pollution'', ''marine life''],
        color = ''#0a97d9''\<rparr>),
    (''Life on Land (SDG15)'',
       \<lparr>keyword_list = [''biodiversity'', ''forests'', ''land'', ''wildlife'', ''ecosystem''],
        color = ''#56c02b''\<rparr>),
    (''Peace, Justice and Strong Institutions (SDG16)'',
       \<lparr>keyword_list = [''peace'', ''justice'', ''strong institutions'', ''governance''],
        color = ''#00689d''\<rparr>),
    (''Partnerships for the Goals (SDG17)'',
       \<lparr>keyword_list = [''partnership'', ''collaboration'', ''sdg goals'', ''sustainable development goals''],
        color = ''#19486a''\<rparr>)]"

section \<open>Mapping a snippet to categories\<close>

text \<open>
  \<open>matched_sdgs\<close> is a Python set: a list without repetition here, \<open>set_add\<close> being
  \<open>set.add\<close>. The source returns \<open>list(matched_sdgs)\<close>, whose order Python leaves
  open; the model lists the members in the order they were added, and every statement
  below speaks of the members only.
\<close>

definition set_add :: "'a \<Rightarrow> 'a list \<Rightarrow> 'a list" where
  "set_add x s = (if x \<in> set s then s else s @ [x])"

definition match_step :: "pystr \<Rightarrow> string \<times> sdg_data \<Rightarrow> string list \<Rightarrow> string list" where
  "match_step text_lower entry matched_sdgs =
     (case entry of (sdg, data) \<Rightarrow>
        if list_ex (\<lambda>keyword. str_in (str keyword) text_lower) (keyword_list data)
        then set_add sdg matched_sdgs else matched_sdgs)"

definition map_snippet_to_sdgs :: "(pystr \<Rightarrow> pystr) \<Rightarrow> pystr \<Rightarrow> string list" where
  "map_snippet_to_sdgs unicode_lower text =
     (let text_lower = str_lower unicode_lower text
      in fold (match_step text_lower) SDG_KEYWORDS [])"

section \<open>Sentiment\<close>

text \<open>
  \<open>TextBlob\<close> is an external library: the scorer is a parameter. Given the text it
  either raises or returns the pair (polarity, subjectivity) of \<open>analysis.sentiment\<close>.
  A Python float is modelled by the real number it denotes; comparing two floats is
  comparing those numbers.
\<close>

datatype error = Raised string

type_synonym text_blob = "pystr \<Rightarrow> error + real \<times> real"

text \<open>
  The literal \<open>0.2\<close> of the source is a binary64 float: the double nearest to one
  fifth, which is \<open>3602879701896397 / 2^54\<close>. \<open>-0.2\<close> is its negation.
  \<open>float_0_21\<close> is the double that the literal \<open>0.21\<close> denotes.
\<close>

definition float_0_2 :: real where
  "float_0_2 = 3602879701896397 / 18014398509481984"

definition float_0_21 :: real where
  "float_0_21 = 7566047373982433 / 36028797018963968"

record sentiment_result =
  sentiment :: string
  polarity :: real
  subjectivity :: real

definition analyze_sentiment :: "text_blob \<Rightarrow> pystr \<Rightarrow> error + sentiment_result" where
  "analyze_sentiment TextBlob text =
     (case TextBlob text of
        Inl e \<Rightarrow> Inl e
      | Inr (pol, subj) \<Rightarrow>
          Inr \<lparr>sentiment =
                 (if pol > float_0_2 then ''Positive''
                  else if pol < - float_0_2 then ''Negative''
                  else ''Neutral''),
               polarity = pol,
               subjectivity = subj\<rparr>)"

section \<open>Articles\<close>

text \<open>
  A scraped article is a dict with the keys title, link, date, author and summary; the
  loop of \<open>main\<close> (lines 296 to 298) adds the keys \<open>sdgs\<close> and \<open>sentiment\<close>.
  The latter is the field \<open>art_sentiment\<close>, since \<open>sentiment\<close> is already the
  field of the dict it holds. An exception of \<open>analyze_sentiment\<close> is not caught
  there, so it ends the loop.
\<close>

record news_item =
  title :: pystr
  link :: pystr
  date :: pystr
  author :: pystr
  summary :: pystr

record article = news_item +
  sdgs :: "string list"
  art_sentiment :: sentiment_result

definition annotate :: "news_item \<Rightarrow> string list \<Rightarrow> sentiment_result \<Rightarrow> article" where
  "annotate art s r =
     \<lparr>title = title art, link = link art, date = date art, author = author art,
      summary = summary art, sdgs = s, art_sentiment = r\<rparr>"

fun annotate_articles ::
  "(pystr \<Rightarrow> pystr) \<Rightarrow> text_blob \<Rightarrow> news_item list \<Rightarrow> error + article list" where
  "annotate_articles unicode_lower TextBlob [] = Inr []"
| "annotate_articles unicode_lower TextBlob (art # rest) =
     (let s = map_snippet_to_sdgs unicode_lower (summary art) in
      case analyze_sentiment TextBlob (summary art) of
        Inl e \<Rightarrow> Inl e
      | Inr r \<Rightarrow>
          (case annotate_articles unicode_lower TextBlob rest of
             Inl e \<Rightarrow> Inl e
           | Inr rest' \<Rightarrow> Inr (annotate art s r # rest')))"

section \<open>Counting categories\<close>

text \<open>
  \<open>sdg_counts\<close> is a \<open>defaultdict(int)\<close>: reading a missing key gives 0, and
  \<open>sdg_counts[sdg] += 1\<close> stores the successor. Lines 303 to 306 of \<open>main\<close>.
\<close>

definition incr :: "string \<Rightarrow> (string \<rightharpoonup> int) \<Rightarrow> (string \<rightharpoonup> int)" where
  "incr sdg counts = counts(sdg \<mapsto> (case counts sdg of None \<Rightarrow> 0 | Some n \<Rightarrow> n) + 1)"

definition sdg_counts :: "article list \<Rightarrow> (string \<rightharpoonup> int)" where
  "sdg_counts articles = fold (\<lambda>art counts. fold incr (sdgs art) counts) articles Map.empty"

section \<open>Filtering articles\<close>

text \<open>
  Lines 367 to 371 of \<open>main\<close>: \<open>selected_sdgs\<close> is the list that the multiselect
  returns, \<open>sentiment_filter\<close> the string that the selectbox returns.
\<close>

definition filtered_articles :: "article list \<Rightarrow> string list \<Rightarrow> string \<Rightarrow> article list" where
  "filtered_articles articles selected_sdgs sentiment_filter =
     filter (\<lambda>art.
        (selected_sdgs = [] \<or> list_ex (\<lambda>sdg. sdg \<in> set (sdgs art)) selected_sdgs) \<and>
        (sentiment_filter = ''All'' \<or> sentiment (art_sentiment art) = sentiment_filter))
       articles"

section \<open>The table as a global variable\<close>

text \<open>
  \<open>SDG_KEYWORDS\<close> is a module-level name bound to a mutable dict of mutable dicts and
  lists. \<open>globals\<close> holds the value bound to it, and every place of the source that
  uses the name is an operation that takes the globals and returns them with its result:
  \<^item> \<open>map_snippet_to_sdgs\<close> (lines 137 to 144) iterates over \<open>SDG_KEYWORDS.items()\<close>;
  \<^item> \<open>display_sdg_badges\<close> (line 185) reads a colour with
    \<open>SDG_KEYWORDS.get(sdg, {}).get("color", "#000000")\<close>;
  \<^item> the chart of \<open>main\<close> (line 313) reads \<open>SDG_KEYWORDS[sdg]["color"]\<close>, which
    raises \<open>KeyError\<close> for a name that is no key;
  \<^item> the keyword tracing of \<open>main\<close> (lines 575 to 583) iterates over the items and,
    for every article, collects the keywords \<open>kw\<close> with
    \<open>kw.lower() in art["summary"].lower()\<close>, keeping the articles with a keyword found.
  None of them assigns to the name, to a key of the dict, or to an entry.
\<close>

record globals =
  keyword_table :: "(string \<times> sdg_data) list"

definition initial_globals :: globals where
  "initial_globals = \<lparr>keyword_table = SDG_KEYWORDS\<rparr>"

datatype operation =
    Map_snippet_to_sdgs pystr
  | Display_sdg_badges "string list"
  | Chart_colors "string list"
  | Trace_keywords "pystr list"

datatype outcome =
    Sdgs "string list"
  | Colors "string list"
  | Traced "(string \<times> (nat \<times> string list) list) list"
  | Failed error

definition badge_color :: "(string \<times> sdg_data) list \<Rightarrow> string \<Rightarrow> string" where
  "badge_color table sdg = (case map_of table sdg of None \<Rightarrow> ''#000000'' | Some data \<Rightarrow> color data)"

fun chart_colors :: "(string \<times> sdg_data) list \<Rightarrow> string list \<Rightarrow> error + string list" where
  "chart_colors table [] = Inr []"
| "chart_colors table (sdg # rest) =
     (case map_of table sdg of
        None \<Rightarrow> Inl (Raised ''KeyError'')
      | Some data \<Rightarrow>
          (case chart_colors table rest of
             Inl e \<Rightarrow> Inl e
           | Inr colors \<Rightarrow> Inr (color data # colors)))"

definition trace_keywords ::
  "(pystr \<Rightarrow> pystr) \<Rightarrow> (string \<times> sdg_data) list \<Rightarrow> pystr list \<Rightarrow>
     (string \<times> (nat \<times> string list) list) list" where
  "trace_keywords unicode_lower table summaries =
     map (\<lambda>(sdg, data).
        (sdg,
         filter (\<lambda>(idx, found). found \<noteq> [])
           (map (\<lambda>(idx, text).
              (idx, filter (\<lambda>kw. str_in (str_lower unicode_lower (str kw))
                                      (str_lower unicode_lower text))
                      (keyword_list data)))
              (enumerate 0 summaries))))
       table"

fun run_operation :: "(pystr \<Rightarrow> pystr) \<Rightarrow> operation \<Rightarrow> globals \<Rightarrow> outcome \<times> globals" where
  "run_operation unicode_lower (Map_snippet_to_sdgs text) g =
     (Sdgs (fold (match_step (str_lower unicode_lower text)) (keyword_table g) []), g)"
| "run_operation unicode_lower (Display_sdg_badges names) g =
     (Colors (map (badge_color (keyword_table g)) names), g)"
| "run_operation unicode_lower (Chart_colors names) g =
     (case chart_colors (keyword_table g) names of
        Inl e \<Rightarrow> (Failed e, g)
      | Inr colors \<Rightarrow> (Colors colors, g))"
| "run_operation unicode_lower (Trace_keywords summaries) g =
     (Traced (trace_keywords unicode_lower (keyword_table g) summaries), g)"

definition run_operations :: "(pystr \<Rightarrow> pystr) \<Rightarrow> operation list \<Rightarrow> globals \<Rightarrow> globals" where
  "run_operations unicode_lower ops g = fold (\<lambda>op g. snd (run_operation unicode_lower op g)) ops g"

section \<open>The spec's notions\<close>

text \<open>
  A keyword occurs in a text as a case-insensitive substring when the keyword in lower
  case is a contiguous part of the text in lower case.
\<close>

definition ci_substring :: "(pystr \<Rightarrow> pystr) \<Rightarrow> string \<Rightarrow> pystr \<Rightarrow> bool" where
  "ci_substring unicode_lower k t =
     sublist (str_lower unicode_lower (str k)) (str_lower unicode_lower t)"

text \<open>The category filter and the sentiment filter, in the spec's words.\<close>

definition passes_category :: "string list \<Rightarrow> article \<Rightarrow> bool" where
  "passes_category selected art = (set selected = {} \<or> set (sdgs art) \<inter> set selected \<noteq> {})"

definition passes_sentiment :: "string \<Rightarrow> article \<Rightarrow> bool" where
  "passes_sentiment choice art = (choice = ''All'' \<or> sentiment (art_sentiment art) = choice)"

text \<open>
  How often a category is listed over all articles: the number that the counting loop
  adds up for it.
\<close>

definition occurrences :: "string \<Rightarrow> article list \<Rightarrow> nat" where
  "occurrences k arts = sum_list (map (\<lambda>a. count_list (sdgs a) k) arts)"

section \<open>Example inputs\<close>

text \<open>
  Scorers, case mappings and articles on which the theorems below are instantiated.
  \<open>example_unicode_lower\<close> lowers code point by code point, as Python does on the
  example texts: U+212A (the Kelvin sign) becomes \<open>k\<close>, and U+0130 becomes \<open>i\<close>
  followed by U+0307.
\<close>

definition example_lower_codepoint :: "nat \<Rightarrow> pystr" where
  "example_lower_codepoint c =
     (if c = 8490 then [107] else if c = 304 then [105, 775] else [ascii_lower_char c])"

definition example_unicode_lower :: "pystr \<Rightarrow> pystr" where
  "example_unicode_lower text = concat (map example_lower_codepoint text)"

definition failing_text_blob :: text_blob where
  "failing_text_blob text = Inl (Raised ''sentiment scoring failed'')"

definition const_text_blob :: "real \<Rightarrow> real \<Rightarrow> text_blob" where
  "const_text_blob pol subj text = Inr (pol, subj)"

definition example_text_blob :: text_blob where
  "example_text_blob text =
     (if text = [] then Inr (0, 0)
      else if str_in (str ''failure'') text then Inl (Raised ''sentiment scoring failed'')
      else if str_in (str ''improved'') text then Inr (float_0_21, 1 / 2)
      else Inr (- float_0_21, 1))"

definition example_item :: "string \<Rightarrow> news_item" where
  "example_item text =
     \<lparr>title = str ''No title'', link = str ''#'', date = str ''Unknown'',
      author = str ''Unknown'', summary = str text\<rparr>"

definition example_article :: "string list \<Rightarrow> string \<Rightarrow> article" where
  "example_article s label =
     annotate (example_item ''No summary available.'') s
       \<lparr>sentiment = label, polarity = 0, subjectivity = 0\<rparr>"

definition example_batch :: "news_item list" where
  "example_batch = [example_item ''Solar jobs improved'', example_item []]"

definition example_failing_batch :: "news_item list" where
  "example_failing_batch =
     [example_item ''Solar jobs improved'', example_item ''a failure'', example_item ''more'']"

section \<open>Facts about strings and the table\<close>

lemma starts_with_prefix: "starts_with a b = prefix a b"
  by (induction a b rule: starts_with.induct) simp_all

lemma str_in_sublist: "str_in a b = sublist a b"
  by (induction b) (simp_all add: starts_with_prefix sublist_Cons_right)

lemma sublist_map_iff: "sublist k (map f t) = (\<exists>s. sublist s t \<and> map f s = k)"
proof
  assume "sublist k (map f t)"
  then show "\<exists>s. sublist s t \<and> map f s = k"
    using sublist_map_rightE [of k f t] by metis
next
  assume "\<exists>s. sublist s t \<and> map f s = k"
  then obtain s where s: "sublist s t" "map f s = k" by blast
  from s(1) obtain ps ss where "t = ps @ s @ ss" by (auto simp: sublist_def)
  with s(2) show "sublist k (map f t)" by (auto simp: sublist_def)
qed

lemma str_lower_ascii: "is_ascii s \<Longrightarrow> str_lower u s = map ascii_lower_char s"
  by (simp add: str_lower_def)

lemma set_set_add: "set (set_add x s) = insert x (set s)"
  by (auto simp: set_add_def)

lemma distinct_set_add: "distinct s \<Longrightarrow> distinct (set_add x s)"
  by (simp add: set_add_def)

lemma set_fold_match_step:
  "set (fold (match_step txt) tbl acc) =
     set acc \<union> {sdg. \<exists>data. (sdg, data) \<in> set tbl \<and>
                    list_ex (\<lambda>k. str_in (str k) txt) (keyword_list data)}"
proof (induction tbl arbitrary: acc)
  case Nil
  show ?case by simp
next
  case (Cons e tbl)
  obtain sdg data where e: "e = (sdg, data)" by (cases e)
  show ?case
    unfolding fold_simps Cons.IH
    by (auto simp: e match_step_def set_set_add)
qed

lemma distinct_fold_match_step:
  "distinct acc \<Longrightarrow> distinct (fold (match_step txt) tbl acc)"
  by (induction tbl arbitrary: acc)
     (auto simp: match_step_def distinct_set_add split: prod.splits)

lemma set_map_snippet_to_sdgs:
  "set (map_snippet_to_sdgs u t) =
     {sdg. \<exists>data. (sdg, data) \<in> set SDG_KEYWORDS \<and>
        list_ex (\<lambda>k. str_in (str k) (str_lower u t)) (keyword_list data)}"
  by (simp add: map_snippet_to_sdgs_def set_fold_match_step)

lemma distinct_map_snippet_to_sdgs: "distinct (map_snippet_to_sdgs u t)"
  by (simp add: map_snippet_to_sdgs_def distinct_fold_match_step)

lemma keywords_lowercase:
  "list_all (\<lambda>(name, data).
      list_all (\<lambda>k. is_ascii (str k) \<and> map ascii_lower_char (str k) = str k) (keyword_list data))
     SDG_KEYWORDS"
  by code_simp

lemma keyword_lower:
  "(sdg, data) \<in> set SDG_KEYWORDS \<Longrightarrow> k \<in> set (keyword_list data) \<Longrightarrow> str_lower u (str k) = str k"
  using keywords_lowercase by (auto simp: list_all_iff str_lower_def)

lemma distinct_keys: "distinct (map fst SDG_KEYWORDS)"
  by code_simp

lemma member_map_snippet_to_sdgs:
  "(C \<in> set (map_snippet_to_sdgs u t)) =
     (\<exists>data. (C, data) \<in> set SDG_KEYWORDS \<and> (\<exists>k\<in>set (keyword_list data). ci_substring u k t))"
proof -
  have "\<And>data k. (C, data) \<in> set SDG_KEYWORDS \<Longrightarrow> k \<in> set (keyword_list data) \<Longrightarrow>
          ci_substring u k t = str_in (str k) (str_lower u t)"
    by (simp add: ci_substring_def str_in_sublist keyword_lower)
  then show ?thesis
    unfolding set_map_snippet_to_sdgs list_ex_iff by blast
qed

lemma ci_substring_ascii:
  "is_ascii t \<Longrightarrow> is_ascii (str k) \<Longrightarrow>
     ci_substring u k t =
       (\<exists>s. sublist s t \<and> map ascii_lower_char s = map ascii_lower_char (str k))"
  by (simp add: ci_substring_def str_lower_ascii sublist_map_iff)

section \<open>Category matching\<close>

text \<open>
  C2. For every text \<open>t\<close>, whatever its code points, and every category \<open>C\<close> of the
  keyword table with entry \<open>data\<close>, \<open>C\<close> is among the categories matched for \<open>t\<close>
  exactly when one of the keywords of \<open>C\<close> occurs in \<open>t\<close> as a case-insensitive
  substring. Only categories of the table are matched, and a text in which no registered
  keyword occurs matches none. For an ASCII text the condition is that some contiguous
  part of the text equals a keyword of \<open>C\<close> up to the case of letters.
\<close>

theorem map_snippet_to_sdgs_matches:
  "(map_of SDG_KEYWORDS C = Some data \<longrightarrow>
      (C \<in> set (map_snippet_to_sdgs u t)) = (\<exists>k\<in>set (keyword_list data). ci_substring u k t))
   \<and> (C \<in> set (map_snippet_to_sdgs u t) \<longrightarrow> C \<in> fst ` set SDG_KEYWORDS)
   \<and> ((\<forall>(C', d)\<in>set SDG_KEYWORDS. \<forall>k\<in>set (keyword_list d). \<not> ci_substring u k t) \<longrightarrow>
        map_snippet_to_sdgs u t = [])
   \<and> (is_ascii t \<and> map_of SDG_KEYWORDS C = Some data \<longrightarrow>
        (C \<in> set (map_snippet_to_sdgs u t)) =
        (\<exists>k\<in>set (keyword_list data). \<exists>s. sublist s t \<and>
            map ascii_lower_char s = map ascii_lower_char (str k)))"
proof -
  have one: "(C \<in> set (map_snippet_to_sdgs u t)) = (\<exists>k\<in>set (keyword_list data). ci_substring u k t)"
    if m: "map_of SDG_KEYWORDS C = Some data"
  proof -
    have "\<And>d. (C, d) \<in> set SDG_KEYWORDS \<longleftrightarrow> d = data"
      using m distinct_keys by (metis map_of_SomeD map_of_is_SomeI option.inject)
    then show ?thesis by (simp add: member_map_snippet_to_sdgs)
  qed
  have two: "C \<in> fst ` set SDG_KEYWORDS" if "C \<in> set (map_snippet_to_sdgs u t)"
    using that by (force simp: member_map_snippet_to_sdgs)
  have three: "map_snippet_to_sdgs u t = []"
    if n: "\<forall>(C', d)\<in>set SDG_KEYWORDS. \<forall>k\<in>set (keyword_list d). \<not> ci_substring u k t"
  proof (cases "map_snippet_to_sdgs u t")
    case Nil
    then show ?thesis .
  next
    case (Cons C' rest)
    then have "C' \<in> set (map_snippet_to_sdgs u t)" by simp
    then obtain d k where "(C', d) \<in> set SDG_KEYWORDS" "k \<in> set (keyword_list d)" "ci_substring u k t"
      unfolding member_map_snippet_to_sdgs by blast
    with n show ?thesis by blast
  qed
  have four: "(C \<in> set (map_snippet_to_sdgs u t)) =
        (\<exists>k\<in>set (keyword_list data). \<exists>s. sublist s t \<and>
            map ascii_lower_char s = map ascii_lower_char (str k))"
    if a: "is_ascii t" and m: "map_of SDG_KEYWORDS C = Some data"
  proof -
    from m have in_tbl: "(C, data) \<in> set SDG_KEYWORDS" by (rule map_of_SomeD)
    have "\<And>k. k \<in> set (keyword_list data) \<Longrightarrow> is_ascii (str k)"
      using keywords_lowercase in_tbl by (auto simp: list_all_iff)
    then have "\<And>k. k \<in> set (keyword_list data) \<Longrightarrow>
        ci_substring u k t =
          (\<exists>s. sublist s t \<and> map ascii_lower_char s = map ascii_lower_char (str k))"
      using a by (simp add: ci_substring_ascii)
    then show ?thesis unfolding one [OF m] by blast
  qed
  from one two three four show ?thesis by blast
qed

text \<open>
  Three instances. \<open>Health\<close> occurs inside \<open>Affordable Healthcare\<close>, so the category
  of SDG3 is matched. \<open>DECENT WOR\<close> followed by the Kelvin sign U+212A is lowered to
  \<open>decent work\<close>, so the category of SDG8 is matched. A text without any keyword has no
  category.
\<close>

theorem map_snippet_to_sdgs_matches_witness:
  "map_of SDG_KEYWORDS ''Good Health and Well-being (SDG3)'' =
      Some \<lparr>keyword_list = [''health'', ''wellbeing'', ''mental health'', ''healthcare''],
            color = ''#4c9f38''\<rparr>
   \<and> is_ascii (str ''Affordable Healthcare'')
   \<and> sublist (str ''Health'') (str ''Affordable Healthcare'')
   \<and> map ascii_lower_char (str ''Health'') = map ascii_lower_char (str ''health'')
   \<and> ''Good Health and Well-being (SDG3)''
        \<in> set (map_snippet_to_sdgs example_unicode_lower (str ''Affordable Healthcare''))
   \<and> map_of SDG_KEYWORDS ''Decent Work and Economic Growth (SDG8)'' =
      Some \<lparr>keyword_list = [''economic growth'', ''jobs'', ''employment'', ''decent work''],
            color = ''#a21942''\<rparr>
   \<and> ci_substring example_unicode_lower ''decent work'' (str ''DECENT WOR'' @ [8490])
   \<and> ''Decent Work and Economic Growth (SDG8)''
        \<in> set (map_snippet_to_sdgs example_unicode_lower (str ''DECENT WOR'' @ [8490]))
   \<and> \<not> (\<exists>(C', d)\<in>set SDG_KEYWORDS. \<exists>k\<in>set (keyword_list d).
           ci_substring example_unicode_lower k (str ''no relevant content here''))
   \<and> map_snippet_to_sdgs example_unicode_lower (str ''no relevant content here'') = []"
proof -
  let ?d3 = "\<lparr>keyword_list = [''health'', ''wellbeing'', ''mental health'', ''healthcare''],
            color = ''#4c9f38''\<rparr>"
  let ?d8 = "\<lparr>keyword_list = [''economic growth'', ''jobs'', ''employment'', ''decent work''],
            color = ''#a21942''\<rparr>"
  have m3: "map_of SDG_KEYWORDS ''Good Health and Well-being (SDG3)'' = Some ?d3"
    by code_simp
  have m8: "map_of SDG_KEYWORDS ''Decent Work and Economic Growth (SDG8)'' = Some ?d8"
    by code_simp
  have a: "is_ascii (str ''Affordable Healthcare'')" by code_simp
  have s: "sublist (str ''Health'') (str ''Affordable Healthcare'')" by code_simp
  have l: "map ascii_lower_char (str ''Health'') = map ascii_lower_char (str ''health'')"
    by code_simp
  have c: "ci_substring example_unicode_lower ''decent work'' (str ''DECENT WOR'' @ [8490])"
    unfolding ci_substring_def by code_simp
  have n: "\<forall>(C', d)\<in>set SDG_KEYWORDS. \<forall>k\<in>set (keyword_list d).
             \<not> ci_substring example_unicode_lower k (str ''no relevant content here'')"
    unfolding ci_substring_def by code_simp
  have e3: "\<exists>k\<in>set (keyword_list ?d3). \<exists>s. sublist s (str ''Affordable Healthcare'') \<and>
              map ascii_lower_char s = map ascii_lower_char (str k)"
    using s l by auto
  have e8: "\<exists>k\<in>set (keyword_list ?d8).
              ci_substring example_unicode_lower k (str ''DECENT WOR'' @ [8490])"
    using c by simp
  have r3: "''Good Health and Well-being (SDG3)''
        \<in> set (map_snippet_to_sdgs example_unicode_lower (str ''Affordable Healthcare''))"
    using map_snippet_to_sdgs_matches
      [of "''Good Health and Well-being (SDG3)''" ?d3 example_unicode_lower
          "str ''Affordable Healthcare''"] m3 a e3
    by blast
  have r8: "''Decent Work and Economic Growth (SDG8)''
        \<in> set (map_snippet_to_sdgs example_unicode_lower (str ''DECENT WOR'' @ [8490]))"
    using map_snippet_to_sdgs_matches
      [of "''Decent Work and Economic Growth (SDG8)''" ?d8 example_unicode_lower
          "str ''DECENT WOR'' @ [8490]"] m8 e8
    by blast
  have r0: "map_snippet_to_sdgs example_unicode_lower (str ''no relevant content here'') = []"
    using map_snippet_to_sdgs_matches
      [of "''x''" ?d3 example_unicode_lower "str ''no relevant content here''"] n
    by blast
  from m3 a s l r3 m8 c r8 n r0 show ?thesis by blast
qed

text \<open>
  C10. The keyword \<open>inclusion\<close> is listed by two categories, and a text in which it
  occurs (in any case) is matched to both of them.
\<close>

theorem shared_keyword_inclusion:
  "ci_substring u ''inclusion'' t \<Longrightarrow>
     ''Gender Equality (SDG5)'' \<in> set (map_snippet_to_sdgs u t) \<and>
     ''Reduced Inequalities (SDG10)'' \<in> set (map_snippet_to_sdgs u t)"
proof -
  assume c: "ci_substring u ''inclusion'' t"
  have "list_ex (\<lambda>(name, data). name = ''Gender Equality (SDG5)'' \<and>
           ''inclusion'' \<in> set (keyword_list data)) SDG_KEYWORDS"
    by code_simp
  then have k5: "\<exists>data. (''Gender Equality (SDG5)'', data) \<in> set SDG_KEYWORDS \<and>
              ''inclusion'' \<in> set (keyword_list data)"
    unfolding list_ex_iff by blast
  have "list_ex (\<lambda>(name, data). name = ''Reduced Inequalities (SDG10)'' \<and>
           ''inclusion'' \<in> set (keyword_list data)) SDG_KEYWORDS"
    by code_simp
  then have k10: "\<exists>data. (''Reduced Inequalities (SDG10)'', data) \<in> set SDG_KEYWORDS \<and>
              ''inclusion'' \<in> set (keyword_list data)"
    unfolding list_ex_iff by blast
  from c k5 k10 show ?thesis
    unfolding member_map_snippet_to_sdgs by blast
qed

theorem shared_keyword_inclusion_witness:
  "ci_substring example_unicode_lower ''inclusion'' (str ''Diversity and INCLUSION matter'') \<and>
   ''Gender Equality (SDG5)''
     \<in> set (map_snippet_to_sdgs example_unicode_lower (str ''Diversity and INCLUSION matter'')) \<and>
   ''Reduced Inequalities (SDG10)''
     \<in> set (map_snippet_to_sdgs example_unicode_lower (str ''Diversity and INCLUSION matter''))"
proof -
  have c: "ci_substring example_unicode_lower ''inclusion'' (str ''Diversity and INCLUSION matter'')"
    unfolding ci_substring_def by code_simp
  show ?thesis
    using c shared_keyword_inclusion [OF c] by simp
qed

section \<open>The registry\<close>

text \<open>The table does not have 17 entries.\<close>

theorem keyword_table_17_counterexample:
  "length SDG_KEYWORDS \<noteq> 17"
  by code_simp

lemma keyword_table_names:
  "map fst SDG_KEYWORDS =
     [''No Poverty (SDG1)'', ''Good Health and Well-being (SDG3)'', ''Gender Equality (SDG5)'',
      ''Affordable and Clean Energy (SDG7)'', ''Decent Work and Economic Growth (SDG8)'',
      ''Industry, Innovation and Infrastructure (SDG9)'', ''Reduced Inequalities (SDG10)'',
      ''Sustainable Cities and Communities (SDG11)'',
      ''Responsible Consumption and Production (SDG12)'', ''Climate Action (SDG13)'',
      ''Life Below Water (SDG14)'', ''Life on Land (SDG15)'',
      ''Peace, Justice and Strong Institutions (SDG16)'', ''Partnerships for the Goals (SDG17)'']"
  by code_simp

lemma keyword_table_missing:
  "\<not> list_ex (\<lambda>(name, data). str_in ''(SDG2)'' name \<or> str_in ''(SDG4)'' name \<or>
       str_in ''(SDG6)'' name) SDG_KEYWORDS"
  by code_simp

lemma keyword_table_entries:
  "list_all (\<lambda>(name, data). name \<noteq> [] \<and> color data \<noteq> [] \<and> keyword_list data \<noteq> [] \<and>
      list_all (\<lambda>k. is_ascii (str k) \<and> map ascii_lower_char (str k) = str k) (keyword_list data))
     SDG_KEYWORDS"
  by code_simp

lemma run_operation_globals: "snd (run_operation u op g) = g"
  by (cases op) (simp_all split: sum.splits)

lemma run_operations_globals: "run_operations u ops g = g"
  by (induction ops arbitrary: g) (simp_all add: run_operations_def run_operation_globals)

lemma run_map_snippet_to_sdgs:
  "fst (run_operation u (Map_snippet_to_sdgs t) initial_globals) = Sdgs (map_snippet_to_sdgs u t)"
  by (simp add: initial_globals_def map_snippet_to_sdgs_def)

text \<open>
  C3, amended. The table has exactly 14 entries, the ones named below: there is none for
  SDG2, SDG4 and SDG6. The names are pairwise different, and each entry has a name, a
  colour and a non-empty list of keywords, all of them in lower case. No operation of the
  program that uses the table changes it: after any sequence of them the table is the
  initial one, and \<open>map_snippet_to_sdgs\<close> computes what it computes on the initial table.
\<close>

theorem keyword_table_registry:
  "length SDG_KEYWORDS = 14
   \<and> map fst SDG_KEYWORDS =
     [''No Poverty (SDG1)'', ''Good Health and Well-being (SDG3)'', ''Gender Equality (SDG5)'',
      ''Affordable and Clean Energy (SDG7)'', ''Decent Work and Economic Growth (SDG8)'',
      ''Industry, Innovation and Infrastructure (SDG9)'', ''Reduced Inequalities (SDG10)'',
      ''Sustainable Cities and Communities (SDG11)'',
      ''Responsible Consumption and Production (SDG12)'', ''Climate Action (SDG13)'',
      ''Life Below Water (SDG14)'', ''Life on Land (SDG15)'',
      ''Peace, Justice and Strong Institutions (SDG16)'', ''Partnerships for the Goals (SDG17)'']
   \<and> distinct (map fst SDG_KEYWORDS)
   \<and> \<not> list_ex (\<lambda>(name, data). str_in ''(SDG2)'' name \<or> str_in ''(SDG4)'' name \<or>
         str_in ''(SDG6)'' name) SDG_KEYWORDS
   \<and> list_all (\<lambda>(name, data). name \<noteq> [] \<and> color data \<noteq> [] \<and> keyword_list data \<noteq> [] \<and>
        list_all (\<lambda>k. str_lower u (str k) = str k) (keyword_list data)) SDG_KEYWORDS
   \<and> snd (run_operation u op g) = g
   \<and> keyword_table (run_operations u ops initial_globals) = SDG_KEYWORDS
   \<and> fst (run_operation u (Map_snippet_to_sdgs t) (run_operations u ops initial_globals)) =
       Sdgs (map_snippet_to_sdgs u t)"
proof -
  have len: "length SDG_KEYWORDS = 14"
    using arg_cong [OF keyword_table_names, of length] by simp
  have low: "list_all (\<lambda>(name, data). name \<noteq> [] \<and> color data \<noteq> [] \<and> keyword_list data \<noteq> [] \<and>
        list_all (\<lambda>k. str_lower u (str k) = str k) (keyword_list data)) SDG_KEYWORDS"
    using keyword_table_entries by (auto simp: list_all_iff str_lower_def)
  have tbl: "keyword_table (run_operations u ops initial_globals) = SDG_KEYWORDS"
    by (simp add: run_operations_globals initial_globals_def)
  have run: "fst (run_operation u (Map_snippet_to_sdgs t) (run_operations u ops initial_globals)) =
       Sdgs (map_snippet_to_sdgs u t)"
    by (simp only: run_operations_globals run_map_snippet_to_sdgs)
  from len keyword_table_names distinct_keys keyword_table_missing low
    run_operation_globals [of u op g] tbl run
  show ?thesis by (intro conjI)
qed

section \<open>Sentiment labels\<close>

text \<open>
  C1. Whenever the scorer returns a polarity for a text, the label is Positive exactly
  when the polarity is greater than the float 0.2, Negative exactly when it is less than
  the float -0.2, and Neutral exactly when it is neither; the polarity and the
  subjectivity are passed through unchanged.
\<close>

theorem analyze_sentiment_label:
  "TextBlob text = Inr (pol, subj) \<Longrightarrow>
     \<exists>r. analyze_sentiment TextBlob text = Inr r \<and> polarity r = pol \<and> subjectivity r = subj \<and>
       (sentiment r = ''Positive'') = (pol > float_0_2) \<and>
       (sentiment r = ''Negative'') = (pol < - float_0_2) \<and>
       (sentiment r = ''Neutral'') = (\<not> pol > float_0_2 \<and> \<not> pol < - float_0_2)"
proof -
  assume tb: "TextBlob text = Inr (pol, subj)"
  have pos: "0 < float_0_2" by (simp add: float_0_2_def)
  show ?thesis
  proof (cases "pol > float_0_2")
    case True
    with pos have "\<not> pol < - float_0_2" by linarith
    with True tb show ?thesis by (simp add: analyze_sentiment_def)
  next
    case False
    with tb show ?thesis by (simp add: analyze_sentiment_def)
  qed
qed

text \<open>
  The boundaries are exclusive: the floats 0.21, 0.2, -0.21 and -0.2 give Positive,
  Neutral, Negative and Neutral.
\<close>

theorem analyze_sentiment_label_witness:
  "analyze_sentiment (const_text_blob float_0_21 0) (str ''text'') =
      Inr \<lparr>sentiment = ''Positive'', polarity = float_0_21, subjectivity = 0\<rparr>
   \<and> analyze_sentiment (const_text_blob float_0_2 0) (str ''text'') =
      Inr \<lparr>sentiment = ''Neutral'', polarity = float_0_2, subjectivity = 0\<rparr>
   \<and> analyze_sentiment (const_text_blob (- float_0_21) 0) (str ''text'') =
      Inr \<lparr>sentiment = ''Negative'', polarity = - float_0_21, subjectivity = 0\<rparr>
   \<and> analyze_sentiment (const_text_blob (- float_0_2) 0) (str ''text'') =
      Inr \<lparr>sentiment = ''Neutral'', polarity = - float_0_2, subjectivity = 0\<rparr>"
proof -
  have cmp: "float_0_21 > float_0_2" "\<not> float_0_2 > float_0_2" "\<not> float_0_2 < - float_0_2"
    "- float_0_21 < - float_0_2" "\<not> - float_0_2 > float_0_2" "\<not> - float_0_2 < - float_0_2"
    by (simp_all add: float_0_2_def float_0_21_def)
  have tb: "\<And>p. const_text_blob p 0 (str ''text'') = Inr (p, 0)"
    by (simp add: const_text_blob_def)
  have a: "analyze_sentiment (const_text_blob float_0_21 0) (str ''text'') =
      Inr \<lparr>sentiment = ''Positive'', polarity = float_0_21, subjectivity = 0\<rparr>"
    using analyze_sentiment_label [of "const_text_blob float_0_21 0" "str ''text''" float_0_21 0] tb cmp by auto
  have b: "analyze_sentiment (const_text_blob float_0_2 0) (str ''text'') =
      Inr \<lparr>sentiment = ''Neutral'', polarity = float_0_2, subjectivity = 0\<rparr>"
    using analyze_sentiment_label [of "const_text_blob float_0_2 0" "str ''text''" float_0_2 0] tb cmp by auto
  have c: "analyze_sentiment (const_text_blob (- float_0_21) 0) (str ''text'') =
      Inr \<lparr>sentiment = ''Negative'', polarity = - float_0_21, subjectivity = 0\<rparr>"
    using analyze_sentiment_label [of "const_text_blob (- float_0_21) 0" "str ''text''" "- float_0_21" 0] tb cmp by auto
  have d: "analyze_sentiment (const_text_blob (- float_0_2) 0) (str ''text'') =
      Inr \<lparr>sentiment = ''Neutral'', polarity = - float_0_2, subjectivity = 0\<rparr>"
    using analyze_sentiment_label [of "const_text_blob (- float_0_2) 0" "str ''text''" "- float_0_2" 0] tb cmp by auto
  from a b c d show ?thesis by blast
qed


section \<open>Totality\<close>

text \<open>
  \<open>analyze_sentiment\<close> has no handler: when the scorer raises, so does the function,
  and the result is not the neutral default.
\<close>

theorem scorer_failure_counterexample:
  "analyze_sentiment failing_text_blob (str ''any text'') = Inl (Raised ''sentiment scoring failed'') \<and>
   analyze_sentiment failing_text_blob (str ''any text'') \<noteq>
     Inr \<lparr>sentiment = ''Neutral'', polarity = 0, subjectivity = 0\<rparr>"
  by (simp add: analyze_sentiment_def failing_text_blob_def)

lemma map_snippet_to_sdgs_empty: "map_snippet_to_sdgs u [] = []"
proof (cases "map_snippet_to_sdgs u []")
  case Nil
  then show ?thesis .
next
  case (Cons C rest)
  then have "C \<in> set (map_snippet_to_sdgs u [])" by simp
  then obtain data k where in_tbl: "(C, data) \<in> set SDG_KEYWORDS" "k \<in> set (keyword_list data)"
    and c: "ci_substring u k []"
    unfolding member_map_snippet_to_sdgs by blast
  have "list_all (\<lambda>(name, data). list_all (\<lambda>k. k \<noteq> []) (keyword_list data)) SDG_KEYWORDS"
    by code_simp
  with in_tbl have "k \<noteq> []" by (auto simp: list_all_iff)
  moreover have "str k = []"
  proof -
    have k: "str_lower u (str k) = str k" by (rule keyword_lower [OF in_tbl])
    have n: "str_lower u [] = []" by (simp add: str_lower_def is_ascii_def)
    from c show ?thesis unfolding ci_substring_def k n by simp
  qed
  ultimately show ?thesis by (simp add: str_def)
qed

lemma analyze_sentiment_Inl: "(analyze_sentiment tb t = Inl e) = (tb t = Inl e)"
  by (auto simp: analyze_sentiment_def split: sum.splits prod.splits)

lemma analyze_sentiment_Inr: "(\<exists>r. analyze_sentiment tb t = Inr r) = (\<exists>p. tb t = Inr p)"
  by (auto simp: analyze_sentiment_def split: sum.splits prod.splits)

lemma sdgs_annotate: "sdgs (annotate art s r) = s"
  by (simp add: annotate_def)

lemma art_sentiment_annotate: "art_sentiment (annotate art s r) = r"
  by (simp add: annotate_def)

lemma summary_annotate: "summary (annotate art s r) = summary art"
  by (simp add: annotate_def)

lemma annotate_articles_Cons:
  "annotate_articles u tb (art # rest) =
     (case analyze_sentiment tb (summary art) of
        Inl e \<Rightarrow> Inl e
      | Inr r \<Rightarrow>
          (case annotate_articles u tb rest of
             Inl e \<Rightarrow> Inl e
           | Inr rest' \<Rightarrow> Inr (annotate art (map_snippet_to_sdgs u (summary art)) r # rest')))"
  by (simp add: Let_def)

lemma annotate_articles_nth:
  "annotate_articles u tb xs = Inr ys \<Longrightarrow>
     length ys = length xs \<and>
     (\<forall>i<length xs. sdgs (ys ! i) = map_snippet_to_sdgs u (summary (xs ! i)) \<and>
        analyze_sentiment tb (summary (xs ! i)) = Inr (art_sentiment (ys ! i)) \<and>
        summary (ys ! i) = summary (xs ! i))"
proof (induction xs arbitrary: ys)
  case Nil
  then show ?case by simp
next
  case (Cons art rest)
  from Cons.prems obtain r rest' where
    r: "analyze_sentiment tb (summary art) = Inr r" and
    rest': "annotate_articles u tb rest = Inr rest'" and
    ys: "ys = annotate art (map_snippet_to_sdgs u (summary art)) r # rest'"
    unfolding annotate_articles_Cons by (auto split: sum.splits)
  from Cons.IH [OF rest'] have
    len: "length rest' = length rest" and
    ih: "\<And>i. i < length rest \<Longrightarrow> sdgs (rest' ! i) = map_snippet_to_sdgs u (summary (rest ! i)) \<and>
        analyze_sentiment tb (summary (rest ! i)) = Inr (art_sentiment (rest' ! i)) \<and>
        summary (rest' ! i) = summary (rest ! i)"
    by simp_all
  show ?case
  proof (intro conjI allI impI)
    show "length ys = length (art # rest)" by (simp add: ys len)
  next
    fix i assume "i < length (art # rest)"
    then show "sdgs (ys ! i) = map_snippet_to_sdgs u (summary ((art # rest) ! i))"
      by (cases i) (simp_all add: ys sdgs_annotate ih)
  next
    fix i assume "i < length (art # rest)"
    then show "analyze_sentiment tb (summary ((art # rest) ! i)) = Inr (art_sentiment (ys ! i))"
      by (cases i) (simp_all add: ys art_sentiment_annotate r ih)
  next
    fix i assume "i < length (art # rest)"
    then show "summary (ys ! i) = summary ((art # rest) ! i)"
      by (cases i) (simp_all add: ys summary_annotate ih)
  qed
qed

lemma annotate_articles_distinct:
  "annotate_articles u tb xs = Inr ys \<Longrightarrow> a \<in> set ys \<Longrightarrow> distinct (sdgs a)"
proof -
  assume r: "annotate_articles u tb xs = Inr ys" and a: "a \<in> set ys"
  from a obtain i where i: "i < length ys" "a = ys ! i" by (auto simp: in_set_conv_nth)
  with annotate_articles_nth [OF r] have "sdgs a = map_snippet_to_sdgs u (summary (xs ! i))"
    by simp
  then show ?thesis by (simp add: distinct_map_snippet_to_sdgs)
qed

lemma annotate_articles_Inr:
  "(\<exists>ys. annotate_articles u tb xs = Inr ys) = (\<forall>x\<in>set xs. \<exists>p. tb (summary x) = Inr p)"
proof (induction xs)
  case Nil
  show ?case by simp
next
  case (Cons art rest)
  have "(\<exists>ys. annotate_articles u tb (art # rest) = Inr ys) =
        ((\<exists>r. analyze_sentiment tb (summary art) = Inr r) \<and> (\<exists>ys. annotate_articles u tb rest = Inr ys))"
    unfolding annotate_articles_Cons by (auto split: sum.splits)
  then show ?case by (simp add: Cons.IH analyze_sentiment_Inr)
qed

lemma annotate_articles_Inl:
  "(annotate_articles u tb xs = Inl e) =
     (\<exists>i<length xs. tb (summary (xs ! i)) = Inl e \<and> (\<forall>j<i. \<exists>p. tb (summary (xs ! j)) = Inr p))"
proof (induction xs)
  case Nil
  show ?case by simp
next
  case (Cons art rest)
  let ?P = "\<lambda>zs i. i < length zs \<and> tb (summary (zs ! i)) = Inl e \<and>
              (\<forall>j<i. \<exists>p. tb (summary (zs ! j)) = Inr p)"
  show ?case
  proof (cases "tb (summary art)")
    case (Inl e')
    then have l: "(annotate_articles u tb (art # rest) = Inl e) = (e' = e)"
      unfolding annotate_articles_Cons by (simp add: analyze_sentiment_def)
    have "(\<exists>i. ?P (art # rest) i) = (e' = e)"
    proof
      assume "\<exists>i. ?P (art # rest) i"
      then obtain i where i: "?P (art # rest) i" ..
      show "e' = e"
      proof (cases i)
        case 0
        with i Inl show ?thesis by simp
      next
        case (Suc n)
        with i have "\<exists>p. tb (summary ((art # rest) ! 0)) = Inr p" by blast
        with Inl show ?thesis by simp
      qed
    next
      assume "e' = e"
      with Inl have "?P (art # rest) 0" by simp
      then show "\<exists>i. ?P (art # rest) i" ..
    qed
    with l show ?thesis by simp
  next
    case (Inr p)
    then obtain r where r: "analyze_sentiment tb (summary art) = Inr r"
      using analyze_sentiment_Inr [of tb "summary art"] by blast
    have l: "(annotate_articles u tb (art # rest) = Inl e) = (annotate_articles u tb rest = Inl e)"
      unfolding annotate_articles_Cons by (simp add: r split: sum.splits)
    have "(\<exists>i. ?P (art # rest) i) = (\<exists>i. ?P rest i)"
    proof
      assume "\<exists>i. ?P (art # rest) i"
      then obtain i where i: "?P (art # rest) i" ..
      show "\<exists>i. ?P rest i"
      proof (cases i)
        case 0
        with i Inr show ?thesis by simp
      next
        case (Suc n)
        have "\<forall>j<n. \<exists>p. tb (summary (rest ! j)) = Inr p"
        proof (intro allI impI)
          fix j assume "j < n"
          then have "Suc j < i" using Suc by simp
          with i have "\<exists>p. tb (summary ((art # rest) ! Suc j)) = Inr p" by blast
          then show "\<exists>p. tb (summary (rest ! j)) = Inr p" by simp
        qed
        with i Suc have "?P rest n" by simp
        then show ?thesis ..
      qed
    next
      assume "\<exists>i. ?P rest i"
      then obtain n where n: "?P rest n" ..
      have "\<forall>j<Suc n. \<exists>p. tb (summary ((art # rest) ! j)) = Inr p"
      proof (intro allI impI)
        fix j assume j: "j < Suc n"
        show "\<exists>p. tb (summary ((art # rest) ! j)) = Inr p"
        proof (cases j)
          case 0
          with Inr show ?thesis by simp
        next
          case (Suc m)
          with j n show ?thesis by simp
        qed
      qed
      with n have "?P (art # rest) (Suc n)" by simp
      then show "\<exists>i. ?P (art # rest) i" ..
    qed
    with l Cons.IH show ?thesis by simp
  qed
qed

text \<open>
  C4, amended. Category matching is defined on every string: it gives a list of
  categories of the table without repetition, the empty one for the empty string.
  \<open>analyze_sentiment\<close> returns exactly when the scorer does, and gives Neutral with
  polarity 0 and subjectivity 0 on the empty string when the scorer scores that with
  (0, 0). It raises exactly the error that the scorer raises. The loop that classifies
  a batch of articles returns exactly when the scorer returns on every article, with one
  classified article for each; otherwise it raises the error of the first article on
  which the scorer raises.
\<close>

theorem classification_total_amended:
  "map_snippet_to_sdgs u [] = []
   \<and> distinct (map_snippet_to_sdgs u t)
   \<and> set (map_snippet_to_sdgs u t) \<subseteq> fst ` set SDG_KEYWORDS
   \<and> (analyze_sentiment tb t = Inl e) = (tb t = Inl e)
   \<and> (\<exists>r. analyze_sentiment tb t = Inr r) = (\<exists>p. tb t = Inr p)
   \<and> (tb [] = Inr (0, 0) \<longrightarrow>
        analyze_sentiment tb [] = Inr \<lparr>sentiment = ''Neutral'', polarity = 0, subjectivity = 0\<rparr>)
   \<and> (\<exists>ys. annotate_articles u tb xs = Inr ys) = (\<forall>x\<in>set xs. \<exists>p. tb (summary x) = Inr p)
   \<and> (annotate_articles u tb xs = Inl e) =
       (\<exists>i<length xs. tb (summary (xs ! i)) = Inl e \<and>
          (\<forall>j<i. \<exists>p. tb (summary (xs ! j)) = Inr p))
   \<and> (annotate_articles u tb xs = Inr ys \<longrightarrow>
        length ys = length xs \<and>
        (\<forall>i<length xs. sdgs (ys ! i) = map_snippet_to_sdgs u (summary (xs ! i)) \<and>
           analyze_sentiment tb (summary (xs ! i)) = Inr (art_sentiment (ys ! i)) \<and>
           summary (ys ! i) = summary (xs ! i)))"
proof -
  have sub: "set (map_snippet_to_sdgs u t) \<subseteq> fst ` set SDG_KEYWORDS"
    by (force simp: member_map_snippet_to_sdgs)
  have emp: "tb [] = Inr (0, 0) \<longrightarrow>
        analyze_sentiment tb [] = Inr \<lparr>sentiment = ''Neutral'', polarity = 0, subjectivity = 0\<rparr>"
    by (simp add: analyze_sentiment_def float_0_2_def)
  have nth: "annotate_articles u tb xs = Inr ys \<longrightarrow>
        length ys = length xs \<and>
        (\<forall>i<length xs. sdgs (ys ! i) = map_snippet_to_sdgs u (summary (xs ! i)) \<and>
           analyze_sentiment tb (summary (xs ! i)) = Inr (art_sentiment (ys ! i)) \<and>
           summary (ys ! i) = summary (xs ! i))"
    using annotate_articles_nth by blast
  from map_snippet_to_sdgs_empty distinct_map_snippet_to_sdgs sub analyze_sentiment_Inl
    analyze_sentiment_Inr emp annotate_articles_Inr annotate_articles_Inl nth
  show ?thesis by (intro conjI)
qed

text \<open>
  A batch on which the scorer returns, with an empty second summary, and a batch on whose
  second article the scorer raises.
\<close>

lemma example_summary: "summary (example_item text) = str text"
  by (simp add: example_item_def)

lemma example_scores:
  "example_text_blob (str ''Solar jobs improved'') = Inr (float_0_21, 1 / 2)"
  "example_text_blob (str []) = Inr (0, 0)"
  "example_text_blob (str ''a failure'') = Inl (Raised ''sentiment scoring failed'')"
proof -
  have a: "str ''Solar jobs improved'' \<noteq> []" "str ''a failure'' \<noteq> []"
    "\<not> str_in (str ''failure'') (str ''Solar jobs improved'')"
    "str_in (str ''improved'') (str ''Solar jobs improved'')"
    "str_in (str ''failure'') (str ''a failure'')"
    by code_simp+
  show "example_text_blob (str ''Solar jobs improved'') = Inr (float_0_21, 1 / 2)"
    using a by (simp add: example_text_blob_def)
  show "example_text_blob (str []) = Inr (0, 0)"
    by (simp add: example_text_blob_def str_def)
  show "example_text_blob (str ''a failure'') = Inl (Raised ''sentiment scoring failed'')"
    using a by (simp add: example_text_blob_def)
qed

theorem classification_total_amended_witness:
  "example_text_blob [] = Inr (0, 0)
   \<and> analyze_sentiment example_text_blob [] =
       Inr \<lparr>sentiment = ''Neutral'', polarity = 0, subjectivity = 0\<rparr>
   \<and> analyze_sentiment example_text_blob (str ''a failure'') =
       Inl (Raised ''sentiment scoring failed'')
   \<and> (\<exists>ys. annotate_articles example_unicode_lower example_text_blob example_batch = Inr ys \<and>
         length ys = 2 \<and> sdgs (ys ! 1) = [] \<and>
         art_sentiment (ys ! 1) = \<lparr>sentiment = ''Neutral'', polarity = 0, subjectivity = 0\<rparr>)
   \<and> example_text_blob (summary (example_failing_batch ! 0)) = Inr (float_0_21, 1 / 2)
   \<and> example_text_blob (summary (example_failing_batch ! 1)) =
       Inl (Raised ''sentiment scoring failed'')
   \<and> annotate_articles example_unicode_lower example_text_blob example_failing_batch =
       Inl (Raised ''sentiment scoring failed'')"
proof -
  let ?e = "Raised ''sentiment scoring failed''"
  note total = classification_total_amended
  have z: "example_text_blob [] = Inr (0, 0)" by (simp add: example_text_blob_def)
  have a: "analyze_sentiment example_text_blob [] =
       Inr \<lparr>sentiment = ''Neutral'', polarity = 0, subjectivity = 0\<rparr>"
    using total [of example_unicode_lower "[]" example_text_blob ?e "[]" "[]"] z by blast
  have b: "analyze_sentiment example_text_blob (str ''a failure'') = Inl ?e"
    using total [of example_unicode_lower "str ''a failure''" example_text_blob ?e "[]" "[]"]
      example_scores(3) by blast
  have p0: "\<exists>p. example_text_blob (summary (example_item ''Solar jobs improved'')) = Inr p"
    unfolding example_summary using example_scores(1) by (rule exI)
  have p1: "\<exists>p. example_text_blob (summary (example_item [])) = Inr p"
    unfolding example_summary using example_scores(2) by (rule exI)
  have ok: "\<forall>x\<in>set example_batch. \<exists>p. example_text_blob (summary x) = Inr p"
    unfolding example_batch_def using p0 p1 by simp
  then obtain ys where ys: "annotate_articles example_unicode_lower example_text_blob example_batch = Inr ys"
    using total [of example_unicode_lower "[]" example_text_blob ?e example_batch "[]"] by blast
  have nth: "length ys = length example_batch \<and>
        (\<forall>i<length example_batch.
           sdgs (ys ! i) = map_snippet_to_sdgs example_unicode_lower (summary (example_batch ! i)) \<and>
           analyze_sentiment example_text_blob (summary (example_batch ! i)) = Inr (art_sentiment (ys ! i)) \<and>
           summary (ys ! i) = summary (example_batch ! i))"
    using total [of example_unicode_lower "[]" example_text_blob ?e example_batch ys] ys by blast
  have e: "map_snippet_to_sdgs example_unicode_lower [] = []"
    using total [of example_unicode_lower "[]" example_text_blob ?e "[]" "[]"] by blast
  have s1: "summary (example_batch ! 1) = []"
    by (simp add: example_batch_def example_summary str_def)
  from nth have len: "length ys = 2" by (simp add: example_batch_def)
  have l1: "1 < length example_batch" by (simp add: example_batch_def)
  from nth l1 have
    q1: "sdgs (ys ! 1) = map_snippet_to_sdgs example_unicode_lower (summary (example_batch ! 1))" and
    q2: "analyze_sentiment example_text_blob (summary (example_batch ! 1)) = Inr (art_sentiment (ys ! 1))"
    by blast+
  have y1: "sdgs (ys ! 1) = []"
    using q1 unfolding s1 e .
  have y2: "art_sentiment (ys ! 1) = \<lparr>sentiment = ''Neutral'', polarity = 0, subjectivity = 0\<rparr>"
    using q2 unfolding s1 a by simp
  have f0: "example_text_blob (summary (example_failing_batch ! 0)) = Inr (float_0_21, 1 / 2)"
    by (simp add: example_failing_batch_def example_summary example_scores)
  have f1: "example_text_blob (summary (example_failing_batch ! 1)) = Inl ?e"
    by (simp add: example_failing_batch_def example_summary example_scores)
  have "\<exists>p. example_text_blob (summary (example_failing_batch ! 0)) = Inr p"
    using f0 by (rule exI)
  then have "\<forall>j<1. \<exists>p. example_text_blob (summary (example_failing_batch ! j)) = Inr p"
    by simp
  then have "\<exists>i<length example_failing_batch.
      example_text_blob (summary (example_failing_batch ! i)) = Inl ?e \<and>
      (\<forall>j<i. \<exists>p. example_text_blob (summary (example_failing_batch ! j)) = Inr p)"
    using f1 by (intro exI [of _ 1]) (simp add: example_failing_batch_def)
  then have c: "annotate_articles example_unicode_lower example_text_blob example_failing_batch = Inl ?e"
    using total [of example_unicode_lower "[]" example_text_blob ?e example_failing_batch "[]"] by blast
  from z a b ys len y1 y2 f0 f1 c show ?thesis by blast
qed

section \<open>The filter\<close>

text \<open>
  C5. The filter returns exactly the articles that pass both the category filter (nothing
  selected, or a selected category among the article's categories) and the sentiment
  filter (the choice is All, or it is the article's label), in their original order.
\<close>

theorem filtered_articles_spec:
  "filtered_articles xs selected choice =
      filter (\<lambda>art. passes_category selected art \<and> passes_sentiment choice art) xs
   \<and> subseq (filtered_articles xs selected choice) xs"
proof
  have "\<And>art. (selected = [] \<or> list_ex (\<lambda>sdg. sdg \<in> set (sdgs art)) selected) =
              passes_category selected art"
    unfolding passes_category_def list_ex_iff by auto
  then show "filtered_articles xs selected choice =
      filter (\<lambda>art. passes_category selected art \<and> passes_sentiment choice art) xs"
    by (simp add: filtered_articles_def passes_sentiment_def)
  show "subseq (filtered_articles xs selected choice) xs"
    by (simp add: filtered_articles_def)
qed

text \<open>
  C8. Filtering twice with the same arguments is filtering once, and with no category
  selected and the choice All the filter returns its input.
\<close>

theorem filtered_articles_idempotent_identity:
  "filtered_articles (filtered_articles xs selected choice) selected choice =
      filtered_articles xs selected choice
   \<and> filtered_articles xs [] ''All'' = xs"
  by (simp add: filtered_articles_def)

section \<open>The counts\<close>

lemma fold_incr:
  "fold incr xs m k =
     (if count_list xs k = 0 then m k
      else Some ((case m k of None \<Rightarrow> 0 | Some n \<Rightarrow> n) + int (count_list xs k)))"
proof (induction xs arbitrary: m)
  case Nil
  show ?case by simp
next
  case (Cons x xs)
  show ?case
    unfolding fold_simps Cons.IH
    by (simp add: incr_def)
qed

lemma fold_articles:
  "fold (\<lambda>art counts. fold incr (sdgs art) counts) arts m k =
     (if occurrences k arts = 0 then m k
      else Some ((case m k of None \<Rightarrow> 0 | Some n \<Rightarrow> n) + int (occurrences k arts)))"
proof (induction arts arbitrary: m)
  case Nil
  show ?case by (simp add: occurrences_def)
next
  case (Cons a arts)
  let ?m = "fold incr (sdgs a) m"
  have "fold (\<lambda>art counts. fold incr (sdgs art) counts) (a # arts) m k =
        fold (\<lambda>art counts. fold incr (sdgs art) counts) arts ?m k"
    by simp
  also have "\<dots> = (if occurrences k arts = 0 then ?m k
      else Some ((case ?m k of None \<Rightarrow> 0 | Some n \<Rightarrow> n) + int (occurrences k arts)))"
    by (rule Cons.IH)
  also have "\<dots> = (if occurrences k (a # arts) = 0 then m k
      else Some ((case m k of None \<Rightarrow> 0 | Some n \<Rightarrow> n) + int (occurrences k (a # arts))))"
    by (simp add: fold_incr occurrences_def)
  finally show ?case .
qed

lemma sdg_counts_occurrences:
  "sdg_counts arts k =
     (if occurrences k arts = 0 then None else Some (int (occurrences k arts)))"
  by (simp add: sdg_counts_def fold_articles)

lemma count_list_distinct:
  "distinct xs \<Longrightarrow> count_list xs k = (if k \<in> set xs then 1 else 0)"
  by (induction xs) auto

lemma occurrences_distinct:
  "(\<forall>a\<in>set arts. distinct (sdgs a)) \<Longrightarrow>
     occurrences k arts = length (filter (\<lambda>a. k \<in> set (sdgs a)) arts)"
proof (induction arts)
  case Nil
  show ?case by (simp add: occurrences_def)
next
  case (Cons a arts)
  then have d: "distinct (sdgs a)" by simp
  have "count_list (sdgs a) k = (if k \<in> set (sdgs a) then 1 else 0)"
    using d by (rule count_list_distinct)
  with Cons show ?case by (simp add: occurrences_def)
qed

lemma occurrences_mset: "mset ys = mset xs \<Longrightarrow> occurrences k ys = occurrences k xs"
proof -
  assume "mset ys = mset xs"
  then have "mset (map (\<lambda>a. count_list (sdgs a) k) ys) = mset (map (\<lambda>a. count_list (sdgs a) k) xs)"
    by simp
  then have "sum_mset (mset (map (\<lambda>a. count_list (sdgs a) k) ys)) =
             sum_mset (mset (map (\<lambda>a. count_list (sdgs a) k) xs))"
    by (rule arg_cong)
  then show ?thesis
    unfolding occurrences_def sum_mset_sum_list .
qed

text \<open>
  C6. When the categories of every article are listed without repetition (as
  \<open>map_snippet_to_sdgs\<close> lists them), the count of a category \<open>C\<close> is the number of
  articles that have \<open>C\<close>, and a category that no article has is not a key of the
  mapping: no key has the count 0.
\<close>

theorem sdg_counts_count:
  "(\<forall>a\<in>set arts. distinct (sdgs a)) \<Longrightarrow>
     sdg_counts arts C =
       (if \<exists>a\<in>set arts. C \<in> set (sdgs a)
        then Some (int (length (filter (\<lambda>a. C \<in> set (sdgs a)) arts)))
        else None)
     \<and> (C \<in> dom (sdg_counts arts)) = (\<exists>a\<in>set arts. C \<in> set (sdgs a))
     \<and> sdg_counts arts C \<noteq> Some 0"
proof -
  assume d: "\<forall>a\<in>set arts. distinct (sdgs a)"
  have z: "(length (filter (\<lambda>a. C \<in> set (sdgs a)) arts) = 0) = (\<not> (\<exists>a\<in>set arts. C \<in> set (sdgs a)))"
    by (simp add: filter_empty_conv)
  show ?thesis
    unfolding sdg_counts_occurrences occurrences_distinct [OF d] dom_def
    using z by auto
qed

theorem sdg_counts_count_witness:
  "list_all (\<lambda>a. distinct (sdgs a))
     [example_article [''Climate Action (SDG13)'', ''Life on Land (SDG15)''] ''Positive'',
      example_article [] ''Neutral'',
      example_article [''Climate Action (SDG13)''] ''Negative'']
   \<and> sdg_counts
     [example_article [''Climate Action (SDG13)'', ''Life on Land (SDG15)''] ''Positive'',
      example_article [] ''Neutral'',
      example_article [''Climate Action (SDG13)''] ''Negative''] ''Climate Action (SDG13)'' = Some 2
   \<and> sdg_counts
     [example_article [''Climate Action (SDG13)'', ''Life on Land (SDG15)''] ''Positive'',
      example_article [] ''Neutral'',
      example_article [''Climate Action (SDG13)''] ''Negative''] ''No Poverty (SDG1)'' = None"
proof -
  let ?arts = "[example_article [''Climate Action (SDG13)'', ''Life on Land (SDG15)''] ''Positive'',
      example_article [] ''Neutral'',
      example_article [''Climate Action (SDG13)''] ''Negative'']"
  have s: "\<And>s l. sdgs (example_article s l) = s"
    by (simp add: example_article_def annotate_def)
  have d: "\<forall>a\<in>set ?arts. distinct (sdgs a)"
    by (simp add: s)
  have a: "sdg_counts ?arts ''Climate Action (SDG13)'' = Some 2"
    using sdg_counts_count [OF d, of "''Climate Action (SDG13)''"] by (simp add: s)
  have b: "sdg_counts ?arts ''No Poverty (SDG1)'' = None"
    using sdg_counts_count [OF d, of "''No Poverty (SDG1)''"] by (simp add: s)
  from d a b show ?thesis by (simp add: list_all_iff)
qed

text \<open>
  C7. Counting the articles in another order gives the same mapping.
\<close>

theorem sdg_counts_order_independent:
  "mset ys = mset xs \<Longrightarrow> sdg_counts ys = sdg_counts xs"
proof
  fix k
  assume "mset ys = mset xs"
  then have "occurrences k ys = occurrences k xs" by (rule occurrences_mset)
  then show "sdg_counts ys k = sdg_counts xs k" by (simp add: sdg_counts_occurrences)
qed

theorem sdg_counts_order_independent_witness:
  "mset [example_article [''Life on Land (SDG15)''] ''Neutral'',
         example_article [''Climate Action (SDG13)'', ''Life on Land (SDG15)''] ''Positive''] =
   mset [example_article [''Climate Action (SDG13)'', ''Life on Land (SDG15)''] ''Positive'',
         example_article [''Life on Land (SDG15)''] ''Neutral'']
   \<and> sdg_counts [example_article [''Life on Land (SDG15)''] ''Neutral'',
         example_article [''Climate Action (SDG13)'', ''Life on Land (SDG15)''] ''Positive''] =
     sdg_counts [example_article [''Climate Action (SDG13)'', ''Life on Land (SDG15)''] ''Positive'',
         example_article [''Life on Land (SDG15)''] ''Neutral'']"
proof -
  have m: "mset [example_article [''Life on Land (SDG15)''] ''Neutral'',
         example_article [''Climate Action (SDG13)'', ''Life on Land (SDG15)''] ''Positive''] =
   mset [example_article [''Climate Action (SDG13)'', ''Life on Land (SDG15)''] ''Positive'',
         example_article [''Life on Land (SDG15)''] ''Neutral'']"
    by simp
  show ?thesis
    using m sdg_counts_order_independent [OF m] by simp
qed

end
